theory Spec2Isabelle
  imports Main
begin

section \<open>The quiz application (quiz_app.py) as a state machine over script runs\<close>

text \<open>
  The application is a Streamlit script: every user interaction runs \<^verbatim>\<open>main()\<close> from the
  top against the persistent \<^verbatim>\<open>st.session_state\<close>. A run ends normally, by
  \<^verbatim>\<open>st.stop()\<close>, by \<^verbatim>\<open>st.rerun()\<close> (the script is run again at once, with no button
  reported as clicked), or by an exception nobody catches.

  What the script cannot decide is an input of the model: the file system and the random
  source (\<open>env\<close>), the button the user clicked, and the option the radio control holds.
\<close>

subsection \<open>Data\<close>

text \<open>One row of a chapter's CSV file, with the six columns the script reads.\<close>

record question =
  question_text :: string
  optionA :: string
  optionB :: string
  optionC :: string
  correctAnswer :: string
  explanation :: string

text \<open>
  \<^verbatim>\<open>st.session_state\<close>. The five keys that the start-up block initialises are always
  present; \<open>shuffled_df\<close> is \<open>None\<close> while the key is not in the session state.
  \<open>csv_file\<close> and \<open>selected_answer\<close> are \<open>None\<close> where Python holds \<^verbatim>\<open>None\<close>.
\<close>

record session =
  csv_file :: "string option"
  current_question :: int
  answered :: bool
  selected_answer :: "string option"
  score :: int
  shuffled_df :: "question list option"

text \<open>What \<^verbatim>\<open>pd.read_csv\<close> does with a file name: a data frame, or one of the exceptions.\<close>

datatype read_result =
    Frame "question list"
  | ParserError string
  | FileNotFoundError
  | OtherException

text \<open>
  The outside world of a run: the files, and the reordering that
  \<^verbatim>\<open>df.sample(frac=1).reset_index(drop=True)\<close> draws.
\<close>

record env =
  read_csv :: "string \<Rightarrow> read_result"
  sample :: "question list \<Rightarrow> question list"

text \<open>The option the radio control holds in the browser: the first, second or third label.\<close>

datatype pick = PickA | PickB | PickC

fun pick_index :: "pick \<Rightarrow> nat" where
  "pick_index PickA = 0"
| "pick_index PickB = 1"
| "pick_index PickC = 2"

text \<open>
  What a run puts on the page, in order. \<open>Subheader_Question n\<close> is the subheader
  "Question n", \<open>Success_Correct\<close> the success box of a right answer, \<open>ScoreBar c a\<close>
  the bar that \<^verbatim>\<open>display_score_bar\<close> renders for \<open>c\<close> correct out of \<open>a\<close> answered
  (its percentages are floating point and not part of the model), \<open>ButtonW label d\<close> a
  button with its \<open>disabled\<close> flag. The two columns of the buttons are layout only.
\<close>

datatype element =
    Title string
  | Write string
  | Subheader_Question int
  | RadioW "string list"
  | ButtonW string bool
  | Success_Correct
  | ErrorMsg string
  | Info string
  | ScoreBar int int

text \<open>How a run of the script ends.\<close>

datatype ending = Completed | Stopped | RerunRequested | Raised

type_synonym outcome = "ending \<times> session \<times> element list"

subsection \<open>The framework's widgets\<close>

text \<open>
  \<^verbatim>\<open>st.button(label)\<close> is true in the run that the click on that button started. A
  disabled button is only greyed out in the browser; the model leaves the click to the
  caller, and the script's own guards decide.
\<close>

definition st_button :: "string option \<Rightarrow> string \<Rightarrow> bool" where
  "st_button clicked label = (clicked = Some label)"

text \<open>
  \<^verbatim>\<open>st.radio(text, options, index=i)\<close> returns the label the control holds, which is
  \<open>options[i]\<close> as long as the user has not chosen one.
\<close>

definition st_radio :: "pick option \<Rightarrow> string list \<Rightarrow> nat \<Rightarrow> string" where
  "st_radio radio options index =
     (case radio of None \<Rightarrow> options ! index | Some p \<Rightarrow> options ! pick_index p)"

subsection \<open>load_questions and display_score_bar\<close>

definition load_questions :: "env \<Rightarrow> string option \<Rightarrow> (ending \<times> element list) + question list" where
  "load_questions e file =
     (case file of
        None \<Rightarrow> Inl (Raised, [])
      | Some f \<Rightarrow>
          (case read_csv e f of
             Frame df \<Rightarrow> Inr df
           | ParserError msg \<Rightarrow> Inl (Stopped, [ErrorMsg (''Error loading CSV: '' @ msg)])
           | FileNotFoundError \<Rightarrow>
               Inl (Stopped, [ErrorMsg ''CSV file not found. Please check the file path.''])
           | OtherException \<Rightarrow> Inl (Raised, [])))"

definition display_score_bar :: "session \<Rightarrow> element list" where
  "display_score_bar s =
     (let answered_count = current_question s; correct_count = score s
      in if answered_count = 0 then [] else [ScoreBar correct_count answered_count])"

subsection \<open>quiz\<close>

definition labelA :: "question \<Rightarrow> string" where
  "labelA q = ''A) '' @ optionA q"

definition labelB :: "question \<Rightarrow> string" where
  "labelB q = ''B) '' @ optionB q"

definition labelC :: "question \<Rightarrow> string" where
  "labelC q = ''C) '' @ optionC q"

definition labels :: "question \<Rightarrow> string list" where
  "labels q = [labelA q, labelB q, labelC q]"

definition label_to_letter :: "question \<Rightarrow> string \<rightharpoonup> string" where
  "label_to_letter q = Map.empty(labelA q \<mapsto> ''A'', labelB q \<mapsto> ''B'', labelC q \<mapsto> ''C'')"

definition on_choice_change :: "session \<Rightarrow> session" where
  "on_choice_change s = s\<lparr>answered := False\<rparr>"

text \<open>The five assignments under both "Back to Main Menu" buttons.\<close>

definition back_to_main_menu :: "session \<Rightarrow> session" where
  "back_to_main_menu s =
     s\<lparr>csv_file := None, current_question := 0, answered := False,
       selected_answer := None, score := 0\<rparr>"

definition correct_option_text :: "question \<Rightarrow> string" where
  "correct_option_text q =
     (if correctAnswer q = ''A'' then labelA q
      else if correctAnswer q = ''B'' then labelB q
      else if correctAnswer q = ''C'' then labelC q
      else [])"

text \<open>The body of \<^verbatim>\<open>if submit_clicked and not st.session_state.answered\<close>.\<close>

definition submit_block :: "session \<Rightarrow> question \<Rightarrow> session \<times> element list" where
  "submit_block s q =
     (let s1 = s\<lparr>answered := True, current_question := current_question s + 1\<rparr>
      in if selected_answer s1 = Some (correctAnswer q)
         then (let s2 = s1\<lparr>score := score s1 + 1\<rparr>
               in (s2, [Success_Correct, Info (''Explanation: '' @ explanation q)]
                        @ display_score_bar s2))
         else (s1, [ErrorMsg (''Incorrect! The correct answer is '' @ correct_option_text q),
                    Info (''Explanation: '' @ explanation q)]
                   @ display_score_bar s1))"

text \<open>The part of \<^verbatim>\<open>quiz()\<close> that shows the question \<open>q\<close> found at \<open>q_idx\<close>.\<close>

definition question_page ::
  "string option \<Rightarrow> pick option \<Rightarrow> session \<Rightarrow> question \<Rightarrow> element list \<Rightarrow> outcome" where
  "question_page clicked radio s q out =
     (let out1 = out @ [Subheader_Question (current_question s + 1), Write (question_text q),
                        RadioW (labels q)];
          selected_label = st_radio radio (labels q) 0
      in case label_to_letter q selected_label of
           None \<Rightarrow> (Raised, s, out1)
         | Some letter \<Rightarrow>
            (let s1 = s\<lparr>selected_answer := Some letter\<rparr>;
                 submit_clicked = st_button clicked ''Submit'';
                 next_clicked = st_button clicked ''Next Question'';
                 out2 = out1 @ [ButtonW ''Submit'' (answered s1), ButtonW ''Next Question'' False];
                 (s2, out3) = (if submit_clicked \<and> \<not> answered s1 then submit_block s1 q
                               else (s1, []))
             in if next_clicked \<and> answered s2
                then (RerunRequested, s2\<lparr>selected_answer := None\<rparr>, out2 @ out3)
                else (let out4 = out2 @ out3 @ [Write ''---'', ButtonW ''Back to Main Menu'' False]
                      in if st_button clicked ''Back to Main Menu''
                         then (RerunRequested, back_to_main_menu s2, out4)
                         else (Completed, s2, out4))))"

text \<open>
  \<^verbatim>\<open>quiz()\<close> from \<^verbatim>\<open>shuffled_df = st.session_state.shuffled_df\<close> on. The rows are
  numbered from 0 after \<^verbatim>\<open>reset_index\<close>, so \<^verbatim>\<open>.loc\<close> raises KeyError below 0.
\<close>

definition quiz_body ::
  "string option \<Rightarrow> pick option \<Rightarrow> session \<Rightarrow> question list \<Rightarrow> element list \<Rightarrow> outcome" where
  "quiz_body clicked radio s df out =
     (let q_idx = current_question s
      in if q_idx \<ge> int (length df)
         then (let out1 = out @ [Write ''Quiz finished! You've gone through all the questions.'']
                              @ display_score_bar s @ [ButtonW ''Back to Main Menu'' False]
               in if st_button clicked ''Back to Main Menu''
                  then (RerunRequested, back_to_main_menu s, out1)
                  else (Completed, s, out1))
         else if q_idx < 0 then (Raised, s, out)
         else question_page clicked radio s (df ! nat q_idx) out)"

text \<open>
  \<^verbatim>\<open>quiz()\<close>: the frame is loaded and reordered only while the session state has no
  \<open>shuffled_df\<close>. (\<^verbatim>\<open>st.cache_data\<close> on \<^verbatim>\<open>load_questions\<close> changes nothing here: \<open>env\<close>
  answers the same file name with the same result.)
\<close>

definition quiz :: "env \<Rightarrow> string option \<Rightarrow> pick option \<Rightarrow> session \<Rightarrow> element list \<Rightarrow> outcome" where
  "quiz e clicked radio s out =
     (case shuffled_df s of
        Some df \<Rightarrow> quiz_body clicked radio s df out
      | None \<Rightarrow>
          (case load_questions e (csv_file s) of
             Inl (fin, msgs) \<Rightarrow> (fin, s, out @ msgs)
           | Inr df \<Rightarrow>
               (let s1 = s\<lparr>shuffled_df := Some (sample e df)\<rparr>
                in quiz_body clicked radio s1 (sample e df) out)))"

subsection \<open>main\<close>

text \<open>The nine chapter buttons of the menu, in the order of the script: label and file.\<close>

definition chapters :: "(string \<times> string) list" where
  "chapters =
     [(''Chapter 1 - Introduction to ESG Investing'', ''chapter1.csv''),
      (''Chapter 2 - The ESG Market'', ''chapter2.csv''),
      (''Chapter 3 - Environmental Factors'', ''chapter3.csv''),
      (''Chapter 4 - Social Factors'', ''chapter4.csv''),
      (''Chapter 5 - Governance Factors'', ''chapter5.csv''),
      (''Chapter 6 - Engagement and Stewardship'', ''chapter6.csv''),
      (''Chapter 7 - ESG Analysis, Valuation, and Integration'', ''chapter7.csv''),
      (''Chapter 8 - Integrated Portfolio Construction and Management'', ''chapter8.csv''),
      (''Chapter 9 - Investment Mandates, Portfolio Analytics, and Client Reporting'',
       ''chapter9.csv'')]"

text \<open>The five assignments under each chapter button.\<close>

definition choose_chapter :: "session \<Rightarrow> string \<Rightarrow> session" where
  "choose_chapter s file =
     s\<lparr>csv_file := Some file, current_question := 0, answered := False,
       selected_answer := None, score := 0\<rparr>"

text \<open>The chain of \<^verbatim>\<open>if st.button(...)\<close> of the menu, ending in \<^verbatim>\<open>st.stop()\<close>.\<close>

fun menu_buttons ::
  "string option \<Rightarrow> (string \<times> string) list \<Rightarrow> session \<Rightarrow> element list \<Rightarrow> outcome" where
  "menu_buttons clicked [] s out = (Stopped, s, out)"
| "menu_buttons clicked ((label, file) # rest) s out =
     (if st_button clicked label
      then (RerunRequested, choose_chapter s file, out @ [ButtonW label False])
      else menu_buttons clicked rest s (out @ [ButtonW label False]))"

definition main :: "env \<Rightarrow> string option \<Rightarrow> pick option \<Rightarrow> session \<Rightarrow> outcome" where
  "main e clicked radio s =
     (let out = [Title ''Quiz Menu'']
      in if csv_file s = None
         then menu_buttons clicked chapters s
                (out @ [Write ''**Please choose which chapter quiz you want to take:**''])
         else quiz e clicked radio s out)"

text \<open>The session state after the start-up block under \<^verbatim>\<open>__main__\<close>, on a new session.\<close>

definition init_state :: session where
  "init_state =
     \<lparr>csv_file = None, current_question = 0, answered = False, selected_answer = None,
      score = 0, shuffled_df = None\<rparr>"

subsection \<open>Interactions\<close>

text \<open>
  A run that ends in \<^verbatim>\<open>st.rerun()\<close> is followed by another run on the state it left, with
  the same widget values and no button clicked, until a run ends otherwise. What the user
  sees is the page of the last run.
\<close>

partial_function (option) rerun_loop ::
  "env \<Rightarrow> string option \<Rightarrow> pick option \<Rightarrow> session \<Rightarrow> outcome option" where
  "rerun_loop e clicked radio s =
     (case main e clicked radio s of
        (fin, s', out) \<Rightarrow>
          if fin = RerunRequested then rerun_loop e None radio s' else Some (fin, s', out))"

text \<open>
  The user's actions: a click on the button with a label, or a change of the option in
  the radio control, which calls \<open>on_choice_change\<close> before the run. Both carry what the
  radio control on the page of the following run holds (\<open>None\<close>: a control untouched
  since it was drawn, at its \<open>index\<close>). The framework decides whether the control drawn
  after a change is still the one the user changed; the model leaves it open.
\<close>

declare rerun_loop.simps [code]

datatype event = Click string "pick option" | Change "pick option"

definition handle_event :: "env \<Rightarrow> event \<Rightarrow> session \<Rightarrow> outcome option" where
  "handle_event e ev s =
     (case ev of
        Click label radio \<Rightarrow> rerun_loop e (Some label) radio s
      | Change radio \<Rightarrow> rerun_loop e None radio (on_choice_change s))"

fun run_events :: "env \<Rightarrow> event list \<Rightarrow> session \<Rightarrow> session option" where
  "run_events e [] s = Some s"
| "run_events e (ev # evs) s =
     (case handle_event e ev s of
        None \<Rightarrow> None
      | Some (fin, s', out) \<Rightarrow> run_events e evs s')"

text \<open>The list the session walks through: empty as long as none is stored.\<close>

definition question_order :: "session \<Rightarrow> question list" where
  "question_order s = (case shuffled_df s of None \<Rightarrow> [] | Some df \<Rightarrow> df)"

text \<open>The invariant of the counters: nothing below zero, no more right answers than
  questions resolved, no more questions resolved than the list holds.\<close>

definition score_position_inv :: "session \<Rightarrow> bool" where
  "score_position_inv s =
     (0 \<le> score s \<and> score s \<le> current_question s
      \<and> current_question s \<le> int (length (question_order s)))"


subsection \<open>A small installation to run the script on\<close>

definition q_one :: question where
  "q_one = \<lparr>question_text = ''Q1'', optionA = ''a1'', optionB = ''b1'', optionC = ''c1'',
            correctAnswer = ''A'', explanation = ''E1''\<rparr>"

definition q_two :: question where
  "q_two = \<lparr>question_text = ''Q2'', optionA = ''a2'', optionB = ''b2'', optionC = ''c2'',
            correctAnswer = ''B'', explanation = ''E2''\<rparr>"

definition q_three :: question where
  "q_three = \<lparr>question_text = ''Q3'', optionA = ''a3'', optionB = ''b3'', optionC = ''c3'',
              correctAnswer = ''C'', explanation = ''E3''\<rparr>"

text \<open>Chapter 1 has two questions, chapter 2 has one, the file of chapter 4 does not
  parse, no other file exists; the reordering drawn is the reversal.\<close>

definition demo_env :: env where
  "demo_env =
     \<lparr>read_csv = (\<lambda>f. if f = ''chapter1.csv'' then Frame [q_two, q_one]
                      else if f = ''chapter2.csv'' then Frame [q_three]
                      else if f = ''chapter4.csv'' then ParserError ''Expected 6 fields''
                      else FileNotFoundError),
      sample = rev\<rparr>"

definition chapter1_button :: string where
  "chapter1_button = ''Chapter 1 - Introduction to ESG Investing''"

definition chapter2_button :: string where
  "chapter2_button = ''Chapter 2 - The ESG Market''"

definition chapter3_button :: string where
  "chapter3_button = ''Chapter 3 - Environmental Factors''"

definition chapter4_button :: string where
  "chapter4_button = ''Chapter 4 - Social Factors''"

section \<open>Properties\<close>

subsection \<open>Runs without a click, and the end of the rerun loop\<close>

lemma st_button_None [simp]: "st_button None l = False"
  by (simp add: st_button_def)

lemma menu_buttons_None: "menu_buttons None cs s out = (Stopped, s, out @ map (\<lambda>(l, f). ButtonW l False) cs)"
  by (induction cs arbitrary: out) auto

lemma label_to_letter_radio:
  "label_to_letter q (st_radio radio (labels q) 0) =
     Some (case radio of None \<Rightarrow> ''A'' | Some PickA \<Rightarrow> ''A'' | Some PickB \<Rightarrow> ''B'' | Some PickC \<Rightarrow> ''C'')"
  by (auto simp: label_to_letter_def st_radio_def labels_def labelA_def labelB_def labelC_def split: option.splits pick.splits)

lemma question_page_None: "fst (question_page None radio s q out) \<noteq> RerunRequested"
  by (simp add: question_page_def Let_def label_to_letter_radio split: prod.splits)

lemma quiz_body_None: "fst (quiz_body None radio s df out) \<noteq> RerunRequested"
  by (simp add: quiz_body_def Let_def question_page_None)

lemma quiz_None: "fst (quiz e None radio s out) \<noteq> RerunRequested"
  by (auto simp: quiz_def Let_def quiz_body_None load_questions_def split: option.splits sum.splits read_result.splits)

lemma main_None: "fst (main e None radio s) \<noteq> RerunRequested"
  by (simp add: main_def Let_def quiz_None menu_buttons_None)

lemma rerun_loop_None: "rerun_loop e None radio s = Some (main e None radio s)"
  using main_None [of e radio s]
  by (subst rerun_loop.simps) (auto split: prod.splits)

lemma rerun_loop_eq:
  "rerun_loop e clicked radio s =
     Some (case main e clicked radio s of
             (fin, s', out) \<Rightarrow> if fin = RerunRequested then main e None radio s' else (fin, s', out))"
  by (subst rerun_loop.simps) (auto split: prod.splits simp: rerun_loop_None)

lemma handle_event_total: "\<exists>r. handle_event e ev s = Some r"
  by (cases ev) (simp_all add: handle_event_def rerun_loop_eq del: split_paired_Ex)

subsection \<open>The counters stay in range\<close>

lemma inv_back: "score_position_inv (back_to_main_menu s)"
  by (simp add: score_position_inv_def back_to_main_menu_def question_order_def)

lemma inv_choose: "score_position_inv (choose_chapter s f)"
  by (simp add: score_position_inv_def choose_chapter_def question_order_def)

lemma inv_on_choice: "score_position_inv s \<Longrightarrow> score_position_inv (on_choice_change s)"
  by (simp add: score_position_inv_def on_choice_change_def question_order_def)

lemma inv_menu: "score_position_inv s \<Longrightarrow> menu_buttons clicked cs s out = (fin, s', out') \<Longrightarrow> score_position_inv s'"
  by (induction cs arbitrary: out) (auto simp: inv_choose split: if_splits)

lemma inv_submit_block:
  "score_position_inv s \<Longrightarrow> current_question s < int (length (question_order s)) \<Longrightarrow>
   submit_block s q = (s', out) \<Longrightarrow> score_position_inv s'"
  by (auto simp: submit_block_def score_position_inv_def question_order_def Let_def split: if_splits)

lemma inv_question_page:
  assumes "score_position_inv s" "current_question s < int (length (question_order s))"
    "question_page clicked radio s q out = (fin, s', out')"
  shows "score_position_inv s'"
proof -
  obtain letter where l: "label_to_letter q (st_radio radio (labels q) 0) = Some letter"
    by (simp add: label_to_letter_radio)
  let ?s1 = "s\<lparr>selected_answer := Some letter\<rparr>"
  have i1: "score_position_inv ?s1" "current_question ?s1 < int (length (question_order ?s1))"
    using assms(1,2) by (simp_all add: score_position_inv_def question_order_def)
  obtain s2 out3 where s2: "(if st_button clicked ''Submit'' \<and> \<not> answered ?s1 then submit_block ?s1 q else (?s1, [])) = (s2, out3)"
    by (metis surj_pair)
  have i2: "score_position_inv s2"
    using s2 i1 inv_submit_block [OF i1] by (auto split: if_splits)
  have "s' = s2\<lparr>selected_answer := None\<rparr> \<or> s' = back_to_main_menu s2 \<or> s' = s2"
    using assms(3) l s2 by (auto simp: question_page_def Let_def split: if_splits)
  moreover have "score_position_inv (s2\<lparr>selected_answer := None\<rparr>)"
    using i2 by (simp add: score_position_inv_def question_order_def)
  ultimately show ?thesis using i2 inv_back by auto
qed

lemma inv_quiz_body:
  assumes "score_position_inv s" "shuffled_df s = Some df"
    "quiz_body clicked radio s df out = (fin, s', out')"
  shows "score_position_inv s'"
proof (cases "current_question s \<ge> int (length df)")
  case True
  then have "s' = back_to_main_menu s \<or> s' = s"
    using assms(3) by (auto simp: quiz_body_def Let_def split: if_splits)
  then show ?thesis using assms(1) inv_back by auto
next
  case False
  show ?thesis
  proof (cases "current_question s < 0")
    case True
    then have "s' = s" using assms(3) False by (auto simp: quiz_body_def Let_def)
    then show ?thesis using assms(1) by simp
  next
    case nonneg: False
    have "question_page clicked radio s (df ! nat (current_question s)) out = (fin, s', out')"
      using assms(3) False nonneg by (simp add: quiz_body_def Let_def)
    moreover have "current_question s < int (length (question_order s))"
      using False assms(2) by (simp add: question_order_def)
    ultimately show ?thesis using inv_question_page assms(1) by blast
  qed
qed

lemma inv_quiz:
  assumes "score_position_inv s" "quiz e clicked radio s out = (fin, s', out')"
  shows "score_position_inv s'"
proof (cases "shuffled_df s")
  case (Some df)
  then show ?thesis using assms inv_quiz_body by (simp add: quiz_def)
next
  case None
  show ?thesis
  proof (cases "load_questions e (csv_file s)")
    case (Inl a)
    then have "s' = s" using assms(2) None by (auto simp: quiz_def split: prod.splits)
    then show ?thesis using assms(1) by simp
  next
    case (Inr df)
    let ?s1 = "s\<lparr>shuffled_df := Some (sample e df)\<rparr>"
    have "current_question s \<le> 0" using assms(1) None
      by (simp add: score_position_inv_def question_order_def)
    then have "score_position_inv ?s1" using assms(1)
      by (simp add: score_position_inv_def question_order_def)
    moreover have "quiz_body clicked radio ?s1 (sample e df) out = (fin, s', out')"
      using assms(2) None Inr by (simp add: quiz_def Let_def)
    ultimately show ?thesis using inv_quiz_body [of ?s1 "sample e df"] by simp
  qed
qed

lemma inv_main:
  "score_position_inv s \<Longrightarrow> main e clicked radio s = (fin, s', out) \<Longrightarrow> score_position_inv s'"
  by (auto simp: main_def Let_def split: if_splits dest: inv_menu inv_quiz)

lemma inv_rerun_loop:
  assumes "score_position_inv s" "rerun_loop e clicked radio s = Some (fin, s', out)"
  shows "score_position_inv s'"
proof -
  obtain f1 s1 o1 where m1: "main e clicked radio s = (f1, s1, o1)" by (metis surj_pair)
  have i1: "score_position_inv s1" using inv_main [OF assms(1) m1] .
  show ?thesis
  proof (cases "f1 = RerunRequested")
    case True
    then have "main e None radio s1 = (fin, s', out)"
      using assms(2) m1 by (simp add: rerun_loop_eq)
    then show ?thesis using inv_main i1 by blast
  next
    case False
    then have "s' = s1" using assms(2) m1 by (simp add: rerun_loop_eq)
    then show ?thesis using i1 by simp
  qed
qed

lemma inv_handle_event:
  "score_position_inv s \<Longrightarrow> handle_event e ev s = Some (fin, s', out) \<Longrightarrow> score_position_inv s'"
  by (cases ev) (auto simp: handle_event_def dest: inv_rerun_loop inv_on_choice)

lemmas script_defs =
  handle_event_def rerun_loop_eq main_def quiz_def quiz_body_def question_page_def
  submit_block_def load_questions_def display_score_bar_def label_to_letter_def labels_def
  labelA_def labelB_def labelC_def st_radio_def st_button_def chapters_def choose_chapter_def
  back_to_main_menu_def on_choice_change_def correct_option_text_def Let_def

lemmas demo_defs =
  init_state_def demo_env_def q_one_def q_two_def q_three_def
  chapter1_button_def chapter2_button_def chapter3_button_def chapter4_button_def

lemma radio_letter_cases:
  "label_to_letter q (st_radio radio (labels q) 0) = Some letter \<Longrightarrow>
   letter = ''A'' \<or> letter = ''B'' \<or> letter = ''C''"
  by (auto simp: label_to_letter_radio split: option.splits pick.splits)



subsection \<open>What a run can do to the session\<close>

text \<open>A run that no click started shows a page and changes nothing but the selected answer
  (and stores the question order when none is stored).\<close>

lemma question_page_no_click:
  "question_page None radio s q out = (fin, s', out') \<Longrightarrow>
   fin = Completed \<and> s' = s\<lparr>selected_answer := label_to_letter q (st_radio radio (labels q) 0)\<rparr>
   \<and> Subheader_Question (current_question s + 1) \<in> set out'"
  by (auto simp: question_page_def Let_def label_to_letter_radio)

lemma quiz_body_no_click:
  "quiz_body None radio s df out = (fin, s', out') \<Longrightarrow>
   (if 0 \<le> current_question s \<and> current_question s < int (length df)
    then fin = Completed \<and>
         s' = s\<lparr>selected_answer :=
                  label_to_letter (df ! nat (current_question s))
                    (st_radio radio (labels (df ! nat (current_question s))) 0)\<rparr>
    else s' = s \<and> (fin = Raised \<or> fin = Completed)
         \<and> (\<forall>n. Subheader_Question n \<in> set out' \<longrightarrow> Subheader_Question n \<in> set out))"
  by (auto simp: quiz_body_def Let_def display_score_bar_def dest: question_page_no_click split: if_splits)


lemma quiz_no_click:
  assumes "quiz e None radio s out = (fin, s', out')"
  shows "fin \<noteq> RerunRequested \<and> score s' = score s \<and> current_question s' = current_question s
     \<and> answered s' = answered s \<and> csv_file s' = csv_file s
     \<and> (shuffled_df s \<noteq> None \<longrightarrow> shuffled_df s' = shuffled_df s)"
proof (cases "shuffled_df s")
  case (Some df)
  then have "quiz_body None radio s df out = (fin, s', out')"
    using assms by (simp add: quiz_def)
  from quiz_body_no_click [OF this] show ?thesis
    by (auto split: if_splits)
next
  case None
  show ?thesis
  proof (cases "load_questions e (csv_file s)")
    case (Inl a)
    then show ?thesis using assms None
      by (auto simp: quiz_def load_questions_def split: option.splits read_result.splits)
  next
    case (Inr df)
    then have "quiz_body None radio (s\<lparr>shuffled_df := Some (sample e df)\<rparr>) (sample e df) out
                 = (fin, s', out')"
      using assms None by (simp add: quiz_def Let_def)
    from quiz_body_no_click [OF this] show ?thesis using None
      by (auto split: if_splits)
  qed
qed

lemma main_no_click:
  assumes "main e None radio s = (fin, s', out)"
  shows "fin \<noteq> RerunRequested \<and> score s' = score s \<and> current_question s' = current_question s
     \<and> answered s' = answered s \<and> csv_file s' = csv_file s
     \<and> (shuffled_df s \<noteq> None \<longrightarrow> shuffled_df s' = shuffled_df s)"
proof (cases "csv_file s")
  case None
  then show ?thesis using assms by (simp add: main_def menu_buttons_None)
next
  case (Some f)
  then have "quiz e None radio s [Title ''Quiz Menu''] = (fin, s', out)"
    using assms by (simp add: main_def)
  from quiz_no_click [OF this] show ?thesis .
qed

lemma handle_change:
  "\<exists>fin s' out. handle_event e (Change p) s = Some (fin, s', out) \<and> \<not> answered s'
      \<and> score s' = score s \<and> current_question s' = current_question s \<and> csv_file s' = csv_file s
      \<and> (shuffled_df s \<noteq> None \<longrightarrow> shuffled_df s' = shuffled_df s)"
proof -
  obtain fin s' out where m: "main e None p (on_choice_change s) = (fin, s', out)"
    by (metis surj_pair)
  from main_no_click [OF m] have "handle_event e (Change p) s = Some (fin, s', out)"
    using m by (simp add: handle_event_def rerun_loop_None)
  then show ?thesis using main_no_click [OF m]
    by (auto simp: on_choice_change_def)
qed


lemma menu_buttons_cases:
  "menu_buttons clicked cs s out = (fin, s', out') \<Longrightarrow>
   (fin = Stopped \<and> s' = s) \<or>
   (fin = RerunRequested \<and> (\<exists>label file. (label, file) \<in> set cs \<and> clicked = Some label
       \<and> s' = choose_chapter s file))"
proof (induction cs arbitrary: out)
  case Nil
  then show ?case by simp
next
  case (Cons c cs)
  obtain lbl csv where c: "c = (lbl, csv)" by (cases c)
  show ?case
  proof (cases "clicked = Some lbl")
    case True
    then have "fin = RerunRequested" "s' = choose_chapter s csv"
      using Cons.prems c by (simp_all add: st_button_def)
    then show ?thesis using True c by auto
  next
    case False
    then have "menu_buttons clicked cs s (out @ [ButtonW lbl False]) = (fin, s', out')"
      using Cons.prems c by (simp add: st_button_def)
    from Cons.IH [OF this] show ?thesis by auto
  qed
qed

lemma question_page_cases:
  assumes "question_page clicked radio s q out = (fin, s', out')"
    and "s1 = s\<lparr>selected_answer := label_to_letter q (st_radio radio (labels q) 0)\<rparr>"
    and "s2 = (if clicked = Some ''Submit'' \<and> \<not> answered s then fst (submit_block s1 q) else s1)"
  shows "(fin = Completed \<and> s' = s2) \<or>
         (fin = RerunRequested \<and> clicked = Some ''Next Question'' \<and> answered s
            \<and> s' = s1\<lparr>selected_answer := None\<rparr>) \<or>
         (fin = RerunRequested \<and> clicked = Some ''Back to Main Menu'' \<and> s' = back_to_main_menu s1)"
  using assms
  by (auto simp: question_page_def Let_def label_to_letter_radio st_button_def
      split: if_splits prod.splits)

lemma quiz_body_cases:
  assumes "quiz_body clicked radio s df out = (fin, s', out')"
  shows "if 0 \<le> current_question s \<and> current_question s < int (length df)
         then question_page clicked radio s (df ! nat (current_question s)) out = (fin, s', out')
         else ((fin = Raised \<or> fin = Completed) \<and> s' = s) \<or>
              (fin = RerunRequested \<and> clicked = Some ''Back to Main Menu''
                 \<and> s' = back_to_main_menu s)"
  using assms
  by (auto simp: quiz_body_def Let_def st_button_def split: if_splits)


text \<open>Every run is a run of the menu, a failed load, or a run of \<open>quiz_body\<close> on a
  session that differs from the given one at most in the stored order.\<close>

lemma main_cases:
  assumes "main e clicked radio s = (fin, s', out)"
  obtains
    (menu) "csv_file s = None"
      "menu_buttons clicked chapters s
         [Title ''Quiz Menu'', Write ''**Please choose which chapter quiz you want to take:**'']
       = (fin, s', out)"
  | (load_failed) a where "csv_file s \<noteq> None" "shuffled_df s = None"
      "load_questions e (csv_file s) = Inl a" "s' = s" "fin = Stopped \<or> fin = Raised"
      "out = [Title ''Quiz Menu''] @ snd a"
  | (page) s0 df where "csv_file s \<noteq> None" "shuffled_df s0 = Some df"
      "s0 = s \<or> (\<exists>df0. shuffled_df s = None \<and> load_questions e (csv_file s) = Inr df0
                  \<and> s0 = s\<lparr>shuffled_df := Some (sample e df0)\<rparr>)"
      "quiz_body clicked radio s0 df [Title ''Quiz Menu''] = (fin, s', out)"
proof (cases "csv_file s")
  case None
  then show ?thesis using assms menu by (simp add: main_def)
next
  case (Some f)
  then have q: "quiz e clicked radio s [Title ''Quiz Menu''] = (fin, s', out)"
    using assms by (simp add: main_def)
  show ?thesis
  proof (cases "shuffled_df s")
    case df: (Some df)
    then show ?thesis using q Some page [of s df] by (simp add: quiz_def)
  next
    case None
    show ?thesis
    proof (cases "load_questions e (csv_file s)")
      case (Inl a)
      moreover have "fst a = Stopped \<or> fst a = Raised"
        using Inl by (auto simp: load_questions_def split: option.splits read_result.splits)
      ultimately show ?thesis using q None Some load_failed [of a]
        by (auto simp: quiz_def split: prod.splits)
    next
      case (Inr df0)
      then show ?thesis
        using q None Some page [of "s\<lparr>shuffled_df := Some (sample e df0)\<rparr>" "sample e df0"]
        by (simp add: quiz_def Let_def)
    qed
  qed
qed

lemma submit_block_fields:
  "submit_block s q = (s', out) \<Longrightarrow>
   answered s' \<and> current_question s' = current_question s + 1 \<and> csv_file s' = csv_file s
   \<and> shuffled_df s' = shuffled_df s \<and> selected_answer s' = selected_answer s
   \<and> score s' = score s + (if selected_answer s = Some (correctAnswer q) then 1 else 0)"
  by (auto simp: submit_block_def Let_def split: if_splits)

lemma quiz_body_position:
  assumes "quiz_body clicked radio s df out = (fin, s', out')"
    and "0 \<le> current_question s" "current_question s < current_question s'"
  shows "fin = Completed \<and> answered s' \<and> current_question s' = current_question s + 1"
proof (cases "0 \<le> current_question s \<and> current_question s < int (length df)")
  case True
  then have qp: "question_page clicked radio s (df ! nat (current_question s)) out = (fin, s', out')"
    using quiz_body_cases [OF assms(1)] by simp
  obtain s2 o2 where sb: "submit_block (s\<lparr>selected_answer := label_to_letter (df ! nat (current_question s))
       (st_radio radio (labels (df ! nat (current_question s))) 0)\<rparr>) (df ! nat (current_question s)) = (s2, o2)"
    by (metis surj_pair)
  show ?thesis
    using question_page_cases [OF qp refl refl] assms(2,3) submit_block_fields [OF sb] sb
    by (auto simp: back_to_main_menu_def split: if_splits)
next
  case False
  then show ?thesis using quiz_body_cases [OF assms(1)] assms(2,3)
    by (auto simp: back_to_main_menu_def)
qed

lemma main_position:
  assumes "main e clicked radio s = (fin, s', out)"
    and "0 \<le> current_question s" "current_question s < current_question s'"
  shows "fin = Completed \<and> answered s' \<and> current_question s' = current_question s + 1"
  using assms(1)
proof (cases rule: main_cases)
  case menu
  then show ?thesis using menu_buttons_cases [OF menu(2)] assms(2,3)
    by (auto simp: choose_chapter_def)
next
  case (load_failed a)
  then show ?thesis using assms(3) by simp
next
  case (page s0 df)
  have "current_question s0 = current_question s" using page(3) by auto
  then show ?thesis using quiz_body_position [OF page(4)] assms(2,3) by simp
qed

lemma handle_event_position:
  assumes "handle_event e ev s = Some (fin, s', out)"
    and "0 \<le> current_question s" "current_question s < current_question s'"
  shows "fin = Completed \<and> answered s' \<and> current_question s' = current_question s + 1"
proof (cases ev)
  case (Click label radio)
  obtain f1 s1 o1 where m1: "main e (Some label) radio s = (f1, s1, o1)" by (metis surj_pair)
  show ?thesis
  proof (cases "f1 = RerunRequested")
    case True
    then have m2: "main e None radio s1 = (fin, s', out)"
      using assms(1) Click m1 by (simp add: handle_event_def rerun_loop_eq)
    have "current_question s' = current_question s1" using main_no_click [OF m2] by simp
    then have "current_question s < current_question s1" using assms(3) by simp
    from main_position [OF m1 assms(2) this] True show ?thesis by simp
  next
    case False
    then have "main e (Some label) radio s = (fin, s', out)"
      using assms(1) Click m1 by (simp add: handle_event_def rerun_loop_eq)
    from main_position [OF this assms(2,3)] show ?thesis .
  qed
next
  case (Change p)
  then show ?thesis using handle_change [of e p s] assms by auto
qed


lemma menu_buttons_click:
  "distinct (map fst cs) \<Longrightarrow> (lbl, csv) \<in> set cs \<Longrightarrow>
   \<exists>out'. menu_buttons (Some lbl) cs s out = (RerunRequested, choose_chapter s csv, out')"
proof (induction cs arbitrary: out)
  case Nil
  then show ?case by simp
next
  case (Cons c cs)
  obtain l f where c: "c = (l, f)" by (cases c)
  show ?case
  proof (cases "l = lbl")
    case True
    then have "f = csv" using Cons.prems c by (auto simp: rev_image_eqI)
    then show ?thesis using True c by (simp add: st_button_def)
  next
    case False
    then have "(lbl, csv) \<in> set cs" "distinct (map fst cs)" using Cons.prems c by auto
    from Cons.IH [OF this(2,1)] show ?thesis using False c by (simp add: st_button_def)
  qed
qed

lemma chapters_distinct: "distinct (map fst chapters)"
  by (simp add: chapters_def)

lemma handle_chapter_click:
  assumes "csv_file s = None" "(lbl, csv) \<in> set chapters"
  shows "handle_event e (Click lbl radio) s = Some (main e None radio (choose_chapter s csv))"
proof -
  obtain out where "main e (Some lbl) radio s = (RerunRequested, choose_chapter s csv, out)"
    using menu_buttons_click [OF chapters_distinct assms(2)] assms(1)
    by (auto simp: main_def)
  then show ?thesis by (simp add: handle_event_def rerun_loop_eq)
qed

lemma handle_chapter_click_fields:
  assumes "csv_file s = None" "(lbl, csv) \<in> set chapters"
  shows "\<exists>fin s' out. handle_event e (Click lbl radio) s = Some (fin, s', out)
           \<and> csv_file s' = Some csv \<and> \<not> answered s' \<and> score s' = 0 \<and> current_question s' = 0"
proof -
  obtain fin s' out where m: "main e None radio (choose_chapter s csv) = (fin, s', out)"
    by (metis surj_pair)
  from main_no_click [OF m] handle_chapter_click [OF assms, of e radio] m
  show ?thesis by (auto simp: choose_chapter_def)
qed

subsection \<open>Runs on a question page\<close>





subsection \<open>Pages that show a question\<close>







subsection \<open>Two submissions in a row\<close>








subsection \<open>A chapter that cannot be loaded\<close>

lemma load_failed_run:
  assumes "csv_file s = Some csv" "shuffled_df s = None"
    "read_csv e csv = FileNotFoundError \<or> read_csv e csv = ParserError msg"
  shows "main e clicked radio s =
     (Stopped, s,
      [Title ''Quiz Menu'',
       ErrorMsg (if read_csv e csv = FileNotFoundError
                 then ''CSV file not found. Please check the file path.''
                 else ''Error loading CSV: '' @ msg)])"
  using assms by (auto simp: main_def quiz_def load_questions_def)

lemma load_failed_event:
  assumes "csv_file s = Some csv" "shuffled_df s = None" "\<not> answered s"
    "read_csv e csv = FileNotFoundError \<or> read_csv e csv = ParserError msg"
  shows "handle_event e ev s =
     Some (Stopped, s,
      [Title ''Quiz Menu'',
       ErrorMsg (if read_csv e csv = FileNotFoundError
                 then ''CSV file not found. Please check the file path.''
                 else ''Error loading CSV: '' @ msg)])"
proof (cases ev)
  case (Click lbl radio)
  then show ?thesis
    using load_failed_run [OF assms(1,2,4), of "Some lbl" radio]
    by (simp add: handle_event_def rerun_loop_eq)
next
  case (Change p)
  have "on_choice_change s = s" using assms(3) by (simp add: on_choice_change_def)
  then show ?thesis
    using Change load_failed_run [OF assms(1,2,4), of None p]
    by (simp add: handle_event_def rerun_loop_eq)
qed

subsection \<open>The claims\<close>

text \<open>
  C1 (the code departs from the claim). The question order is stored under
  \<open>shuffled_df\<close> the first time \<open>quiz\<close> runs and no button ever removes it, so a
  chapter chosen after "Back to Main Menu" is played on the list of the chapter chosen
  first: here chapter 2 (one question, \<open>q_three\<close>) is selected and the session walks
  through chapter 1's two questions.
\<close>

theorem second_chapter_reuses_first_order:
  "run_events demo_env
     [Click chapter1_button None, Click ''Back to Main Menu'' None, Click chapter2_button None]
     init_state
   = Some \<lparr>csv_file = Some ''chapter2.csv'', current_question = 0, answered = False,
            selected_answer = Some ''A'', score = 0, shuffled_df = Some [q_one, q_two]\<rparr>
   \<and> read_csv demo_env ''chapter2.csv'' = Frame [q_three]"
  by (simp add: script_defs demo_defs)

text \<open>
  C2 (the code departs from the claim). "Back to Main Menu" resets the chapter, the
  position, the answered flag, the selected answer and the score, and leaves the stored
  question order in the session.
\<close>

theorem back_to_main_menu_leaves_order:
  "run_events demo_env
     [Click chapter1_button None, Click ''Submit'' None, Click ''Back to Main Menu'' None]
     init_state
   = Some \<lparr>csv_file = None, current_question = 0, answered = False,
            selected_answer = None, score = 0, shuffled_df = Some [q_one, q_two]\<rparr>"
  by (simp add: script_defs demo_defs)

text \<open>
  C3. From any session whose counters are in range, and so from the start-up state, every
  sequence of interactions (chapter buttons, option changes, Submit, Next Question, Back
  to Main Menu, in any order) runs through, and \<open>0 \<le> score \<le> position \<le> length\<close>
  of the stored question order holds in the state it ends in; every prefix of a sequence
  is a sequence, so it holds after every transition.
\<close>

theorem counters_in_range_after_every_transition:
  "score_position_inv s \<Longrightarrow> \<exists>s'. run_events e evs s = Some s' \<and> score_position_inv s'"
proof (induction evs arbitrary: s)
  case Nil
  then show ?case by simp
next
  case (Cons ev evs)
  obtain fin s1 out where h: "handle_event e ev s = Some (fin, s1, out)"
    using handle_event_total [of e ev s] by (metis surj_pair)
  have "score_position_inv s1" using inv_handle_event [OF Cons.prems h] .
  then show ?case using Cons.IH h by simp
qed

theorem counters_in_range_witness:
  "score_position_inv init_state \<and>
   (\<exists>s'. run_events demo_env
           [Click chapter1_button None, Click ''Submit'' None, Click ''Next Question'' None,
            Change (Some PickC), Click ''Submit'' (Some PickC)] init_state = Some s'
         \<and> score_position_inv s')"
proof -
  have i: "score_position_inv init_state"
    by (simp add: score_position_inv_def init_state_def question_order_def)
  show ?thesis
    by (rule conjI [OF i counters_in_range_after_every_transition [OF i]])
qed

text \<open>
  C4 (amended). Right after a chapter is selected from the menu, \<open>answered\<close> is false.
  The position advances only in a submission, which sets \<open>answered\<close> in the same step:
  whenever an interaction leaves the position higher than it found it, the position has
  grown by one and \<open>answered\<close> is true.
\<close>

theorem answered_after_selection_and_after_advance:
  "(csv_file s = None \<and> (lbl, csv) \<in> set chapters \<longrightarrow>
      (\<exists>fin s' out. handle_event e (Click lbl radio) s = Some (fin, s', out)
          \<and> csv_file s' = Some csv \<and> \<not> answered s'))
   \<and> (handle_event e ev s1 = Some (fin2, s2, out2) \<and> 0 \<le> current_question s1
          \<and> current_question s1 < current_question s2 \<longrightarrow>
        answered s2 \<and> current_question s2 = current_question s1 + 1)"
  using handle_chapter_click_fields [of s lbl csv e radio]
    handle_event_position [of e ev s1 fin2 s2 out2]
  by blast

text \<open>The claim as stated fails: the submission moves the position from 0 to 1 and leaves
  \<open>answered\<close> true.\<close>

theorem answered_after_advance_counterexample:
  "run_events demo_env [Click chapter1_button None] init_state =
     Some \<lparr>csv_file = Some ''chapter1.csv'', current_question = 0, answered = False,
            selected_answer = Some ''A'', score = 0, shuffled_df = Some [q_one, q_two]\<rparr>
   \<and> run_events demo_env [Click chapter1_button None, Click ''Submit'' None] init_state =
     Some \<lparr>csv_file = Some ''chapter1.csv'', current_question = 1, answered = True,
            selected_answer = Some ''A'', score = 1, shuffled_df = Some [q_one, q_two]\<rparr>"
  by (simp add: script_defs demo_defs)

theorem answered_after_selection_and_after_advance_witness:
  "(csv_file init_state = None \<and> (chapter1_button, ''chapter1.csv'') \<in> set chapters)
   \<and> (\<exists>fin s' out. handle_event demo_env (Click chapter1_button None) init_state = Some (fin, s', out)
          \<and> csv_file s' = Some ''chapter1.csv'' \<and> \<not> answered s')
   \<and> handle_event demo_env (Click ''Submit'' None)
        \<lparr>csv_file = Some ''chapter1.csv'', current_question = 0, answered = False,
            selected_answer = Some ''A'', score = 0, shuffled_df = Some [q_one, q_two]\<rparr>
       = Some (Completed,
           \<lparr>csv_file = Some ''chapter1.csv'', current_question = 1, answered = True,
            selected_answer = Some ''A'', score = 1, shuffled_df = Some [q_one, q_two]\<rparr>,
           [Title ''Quiz Menu'', Subheader_Question 1, Write ''Q1'',
            RadioW [''A) a1'', ''B) b1'', ''C) c1''], ButtonW ''Submit'' False,
            ButtonW ''Next Question'' False, Success_Correct, Info ''Explanation: E1'',
            ScoreBar 1 1, Write ''---'', ButtonW ''Back to Main Menu'' False])
   \<and> answered \<lparr>csv_file = Some ''chapter1.csv'', current_question = 1, answered = True,
            selected_answer = Some ''A'', score = 1, shuffled_df = Some [q_one, q_two]\<rparr>"
proof -
  let ?s0 = "\<lparr>csv_file = Some ''chapter1.csv'', current_question = 0, answered = False,
            selected_answer = Some ''A'', score = 0, shuffled_df = Some [q_one, q_two]\<rparr>"
  let ?s1 = "\<lparr>csv_file = Some ''chapter1.csv'', current_question = 1, answered = True,
            selected_answer = Some ''A'', score = 1, shuffled_df = Some [q_one, q_two]\<rparr>"
  let ?out = "[Title ''Quiz Menu'', Subheader_Question 1, Write ''Q1'',
            RadioW [''A) a1'', ''B) b1'', ''C) c1''], ButtonW ''Submit'' False,
            ButtonW ''Next Question'' False, Success_Correct, Info ''Explanation: E1'',
            ScoreBar 1 1, Write ''---'', ButtonW ''Back to Main Menu'' False]"
  have a: "csv_file init_state = None \<and> (chapter1_button, ''chapter1.csv'') \<in> set chapters"
    by (simp add: init_state_def chapters_def chapter1_button_def)
  have b: "handle_event demo_env (Click ''Submit'' None) ?s0 = Some (Completed, ?s1, ?out)"
    by (simp add: script_defs demo_defs)
  have c: "0 \<le> current_question ?s0 \<and> current_question ?s0 < current_question ?s1" by simp
  note t = answered_after_selection_and_after_advance [of init_state chapter1_button "''chapter1.csv''" demo_env None
      "Click ''Submit'' None" ?s0 Completed ?s1 ?out]
  from t a have p1: "\<exists>fin s' out. handle_event demo_env (Click chapter1_button None) init_state = Some (fin, s', out)
          \<and> csv_file s' = Some ''chapter1.csv'' \<and> \<not> answered s'" by blast
  from t b c have p2: "answered ?s1" by blast
  show ?thesis using a p1 b p2 by blast
qed





text \<open>
  C6 (the code departs from the claim). "Next Question" sets the selected answer to
  \<open>None\<close> and reruns; it does not touch \<open>answered\<close>, and the rerun assigns the selected
  answer again. The next question comes up with \<open>answered\<close> still true.
\<close>

theorem next_question_leaves_answered:
  "run_events demo_env [Click chapter1_button None, Click ''Submit'' None] init_state
   = Some \<lparr>csv_file = Some ''chapter1.csv'', current_question = 1, answered = True,
            selected_answer = Some ''A'', score = 1, shuffled_df = Some [q_one, q_two]\<rparr>
   \<and> run_events demo_env
       [Click chapter1_button None, Click ''Submit'' None, Click ''Next Question'' None] init_state
   = Some \<lparr>csv_file = Some ''chapter1.csv'', current_question = 1, answered = True,
            selected_answer = Some ''A'', score = 1, shuffled_df = Some [q_one, q_two]\<rparr>"
  by (simp add: script_defs demo_defs)




text \<open>
  C8 (amended). When the file of the chapter clicked in the menu is not found or does not
  parse, and no question order is stored, the run shows the error message and stops
  without an exception; position and score are 0, \<open>answered\<close> is false, no answer is
  selected and no order is stored. The chapter stays selected (\<open>csv_file\<close> is set), so
  the menu is not shown again: every later interaction ends on the same error page in the
  same state.
\<close>

theorem failed_load_keeps_chapter_selected:
  assumes "csv_file s = None" "shuffled_df s = None" "(lbl, csv) \<in> set chapters"
    "read_csv e csv = FileNotFoundError \<or> read_csv e csv = ParserError msg"
    "page = [Title ''Quiz Menu'',
             ErrorMsg (if read_csv e csv = FileNotFoundError
                       then ''CSV file not found. Please check the file path.''
                       else ''Error loading CSV: '' @ msg)]"
    "s' = \<lparr>csv_file = Some csv, current_question = 0, answered = False,
           selected_answer = None, score = 0, shuffled_df = None\<rparr>"
  shows "handle_event e (Click lbl radio) s = Some (Stopped, s', page)
         \<and> (\<forall>ev. handle_event e ev s' = Some (Stopped, s', page))"
proof -
  have s': "choose_chapter s csv = s'"
    using assms(2,6) by (simp add: choose_chapter_def)
  have f: "csv_file s' = Some csv" "shuffled_df s' = None" "\<not> answered s'"
    using assms(6) by simp_all
  have "handle_event e (Click lbl radio) s = Some (main e None radio s')"
    using handle_chapter_click [OF assms(1,3)] s' by simp
  then have "handle_event e (Click lbl radio) s = Some (Stopped, s', page)"
    using load_failed_run [OF f(1,2) assms(4)] assms(5) by simp
  moreover have "handle_event e ev s' = Some (Stopped, s', page)" for ev
    using load_failed_event [OF f assms(4)] assms(5) by simp
  ultimately show ?thesis by simp
qed

text \<open>The claim as stated fails: after the failed load of chapter 3 the session has a
  chapter selected, and a click on the button of chapter 2 changes nothing.\<close>

theorem failed_load_counterexample:
  "run_events demo_env [Click chapter3_button None] init_state =
     Some \<lparr>csv_file = Some ''chapter3.csv'', current_question = 0, answered = False,
            selected_answer = None, score = 0, shuffled_df = None\<rparr>
   \<and> run_events demo_env [Click chapter3_button None, Click chapter2_button None] init_state =
     Some \<lparr>csv_file = Some ''chapter3.csv'', current_question = 0, answered = False,
            selected_answer = None, score = 0, shuffled_df = None\<rparr>"
  by (simp add: script_defs demo_defs)

theorem failed_load_keeps_chapter_selected_witness:
  "(handle_event demo_env (Click chapter3_button None) init_state =
      Some (Stopped,
        \<lparr>csv_file = Some ''chapter3.csv'', current_question = 0, answered = False,
         selected_answer = None, score = 0, shuffled_df = None\<rparr>,
        [Title ''Quiz Menu'', ErrorMsg ''CSV file not found. Please check the file path.''])
    \<and> (\<forall>ev. handle_event demo_env ev
         \<lparr>csv_file = Some ''chapter3.csv'', current_question = 0, answered = False,
          selected_answer = None, score = 0, shuffled_df = None\<rparr> =
      Some (Stopped,
        \<lparr>csv_file = Some ''chapter3.csv'', current_question = 0, answered = False,
         selected_answer = None, score = 0, shuffled_df = None\<rparr>,
        [Title ''Quiz Menu'', ErrorMsg ''CSV file not found. Please check the file path.''])))
   \<and> (handle_event demo_env (Click chapter4_button (Some PickB)) init_state =
      Some (Stopped,
        \<lparr>csv_file = Some ''chapter4.csv'', current_question = 0, answered = False,
         selected_answer = None, score = 0, shuffled_df = None\<rparr>,
        [Title ''Quiz Menu'', ErrorMsg ''Error loading CSV: Expected 6 fields''])
    \<and> (\<forall>ev. handle_event demo_env ev
         \<lparr>csv_file = Some ''chapter4.csv'', current_question = 0, answered = False,
          selected_answer = None, score = 0, shuffled_df = None\<rparr> =
      Some (Stopped,
        \<lparr>csv_file = Some ''chapter4.csv'', current_question = 0, answered = False,
         selected_answer = None, score = 0, shuffled_df = None\<rparr>,
        [Title ''Quiz Menu'', ErrorMsg ''Error loading CSV: Expected 6 fields''])))"
proof (rule conjI)
  show "handle_event demo_env (Click chapter3_button None) init_state =
      Some (Stopped,
        \<lparr>csv_file = Some ''chapter3.csv'', current_question = 0, answered = False,
         selected_answer = None, score = 0, shuffled_df = None\<rparr>,
        [Title ''Quiz Menu'', ErrorMsg ''CSV file not found. Please check the file path.''])
    \<and> (\<forall>ev. handle_event demo_env ev
         \<lparr>csv_file = Some ''chapter3.csv'', current_question = 0, answered = False,
          selected_answer = None, score = 0, shuffled_df = None\<rparr> =
      Some (Stopped,
        \<lparr>csv_file = Some ''chapter3.csv'', current_question = 0, answered = False,
         selected_answer = None, score = 0, shuffled_df = None\<rparr>,
        [Title ''Quiz Menu'', ErrorMsg ''CSV file not found. Please check the file path.'']))"
    by (rule failed_load_keeps_chapter_selected [where msg = "[]"])
       (simp_all add: init_state_def chapters_def chapter3_button_def demo_env_def)
next
  show "handle_event demo_env (Click chapter4_button (Some PickB)) init_state =
      Some (Stopped,
        \<lparr>csv_file = Some ''chapter4.csv'', current_question = 0, answered = False,
         selected_answer = None, score = 0, shuffled_df = None\<rparr>,
        [Title ''Quiz Menu'', ErrorMsg ''Error loading CSV: Expected 6 fields''])
    \<and> (\<forall>ev. handle_event demo_env ev
         \<lparr>csv_file = Some ''chapter4.csv'', current_question = 0, answered = False,
          selected_answer = None, score = 0, shuffled_df = None\<rparr> =
      Some (Stopped,
        \<lparr>csv_file = Some ''chapter4.csv'', current_question = 0, answered = False,
         selected_answer = None, score = 0, shuffled_df = None\<rparr>,
        [Title ''Quiz Menu'', ErrorMsg ''Error loading CSV: Expected 6 fields'']))"
    by (rule failed_load_keeps_chapter_selected [where msg = "''Expected 6 fields''"])
       (simp_all add: init_state_def chapters_def chapter4_button_def demo_env_def)
qed







end
